theory Spec2Isabelle
  imports Complex_Main
begin

section \<open>Numeric values\<close>

text \<open>
  The screens compute with arrays of floating-point numbers. An element of such an array is
  modelled as a real number or one of the three special values of IEEE arithmetic. The
  arithmetic of this first model is exact on finite values (overflow and the sign of zero
  are not modelled; rounding is added in the section on binary64 arithmetic); the special
  values follow IEEE: an invalid operation gives \<open>NaN\<close>, a division of a non-zero number by
  zero gives an infinity, and \<open>NaN\<close> propagates. Under numpy's default error state none of
  these operations raises.
\<close>

datatype fval = Fin real | PInf | NInf | NaN

fun is_finite :: "fval \<Rightarrow> bool" where
  "is_finite (Fin a) = True"
| "is_finite PInf = False"
| "is_finite NInf = False"
| "is_finite NaN = False"

definition inf_signed :: "real \<Rightarrow> fval" where
  \<comment> \<open>the result of \<open>inf * a\<close> and of \<open>a / 0\<close>: invalid at 0, else the infinity of the sign of \<open>a\<close>\<close>
  "inf_signed a = (if a = 0 then NaN else if 0 < a then PInf else NInf)"

fun fadd :: "fval \<Rightarrow> fval \<Rightarrow> fval" where
  "fadd (Fin a) (Fin b) = Fin (a + b)"
| "fadd NaN _ = NaN"
| "fadd _ NaN = NaN"
| "fadd PInf NInf = NaN"
| "fadd NInf PInf = NaN"
| "fadd PInf _ = PInf"
| "fadd _ PInf = PInf"
| "fadd NInf _ = NInf"
| "fadd _ NInf = NInf"

fun fmul :: "fval \<Rightarrow> fval \<Rightarrow> fval" where
  "fmul (Fin a) (Fin b) = Fin (a * b)"
| "fmul NaN _ = NaN"
| "fmul _ NaN = NaN"
| "fmul PInf (Fin b) = inf_signed b"
| "fmul NInf (Fin b) = inf_signed (- b)"
| "fmul (Fin a) PInf = inf_signed a"
| "fmul (Fin a) NInf = inf_signed (- a)"
| "fmul PInf PInf = PInf"
| "fmul PInf NInf = NInf"
| "fmul NInf PInf = NInf"
| "fmul NInf NInf = PInf"

fun fdiv :: "fval \<Rightarrow> fval \<Rightarrow> fval" where
  "fdiv (Fin a) (Fin b) = (if b = 0 then inf_signed a else Fin (a / b))"
| "fdiv NaN _ = NaN"
| "fdiv _ NaN = NaN"
| "fdiv (Fin a) PInf = Fin 0"
| "fdiv (Fin a) NInf = Fin 0"
| "fdiv PInf (Fin b) = (if b < 0 then NInf else PInf)"
| "fdiv NInf (Fin b) = (if b < 0 then PInf else NInf)"
| "fdiv PInf PInf = NaN"
| "fdiv PInf NInf = NaN"
| "fdiv NInf PInf = NaN"
| "fdiv NInf NInf = NaN"

fun fsqrt :: "fval \<Rightarrow> fval" where
  \<comment> \<open>\<open>np.sqrt\<close>: the square root of a negative number is \<open>NaN\<close> (an invalid operation)\<close>
  "fsqrt (Fin a) = (if a < 0 then NaN else Fin (sqrt a))"
| "fsqrt PInf = PInf"
| "fsqrt NInf = NaN"
| "fsqrt NaN = NaN"

section \<open>Representations and coordinates\<close>

text \<open>
  \<open>CartesianRepresentation\<close> with its attributes \<open>x\<close>, \<open>y\<close>, \<open>z\<close> (here \<open>c_x\<close>, \<open>c_y\<close>,
  \<open>c_z\<close>), over the reals for finite vectors and over \<open>fval\<close> for a vector that was divided
  by its norm. \<open>UnitSphericalRepresentation\<close> is a direction given by longitude and latitude.
\<close>

record 'a CartesianRepresentation =
  c_x :: 'a
  c_y :: 'a
  c_z :: 'a

record UnitSphericalRepresentation =
  lon :: real
  lat :: real

definition to_cartesian :: "UnitSphericalRepresentation \<Rightarrow> real CartesianRepresentation" where
  "to_cartesian u =
     \<lparr>c_x = cos (lat u) * cos (lon u), c_y = cos (lat u) * sin (lon u), c_z = sin (lat u)\<rparr>"

definition norm_c :: "real CartesianRepresentation \<Rightarrow> real" where
  "norm_c v = sqrt ((c_x v)\<^sup>2 + (c_y v)\<^sup>2 + (c_z v)\<^sup>2)"

definition dot :: "real CartesianRepresentation \<Rightarrow> real CartesianRepresentation \<Rightarrow> real" where
  "dot v w = c_x v * c_x w + c_y v * c_y w + c_z v * c_z w"

definition fdot :: "real CartesianRepresentation \<Rightarrow> fval CartesianRepresentation \<Rightarrow> fval" where
  "fdot v w = fadd (fadd (fmul (Fin (c_x v)) (c_x w)) (fmul (Fin (c_y v)) (c_y w)))
                   (fmul (Fin (c_z v)) (c_z w))"

text \<open>
  A sky coordinate is a point in space at an observation time. It is kept as its Cartesian
  position in the heliographic Stonyhurst frame of its own \<open>obstime\<close>, whose origin is the
  centre of the Sun; \<open>hgs_radius\<close> is the \<open>radius\<close> component of that frame.
\<close>

record SkyCoord =
  obstime :: real
  hgs_position :: "real CartesianRepresentation"

definition hgs_radius :: "SkyCoord \<Rightarrow> real" where
  "hgs_radius c = norm_c (hgs_position c)"

text \<open>
  A frame is read only: its \<open>observer\<close>, the sky positions it holds (the result of
  \<open>represent_as(UnitSphericalRepresentation)\<close>), and the transformation of a sky coordinate
  into the Cartesian axes of the frame (\<open>coord.transform_to(frame).cartesian\<close>). The
  transformation belongs to the coordinate machinery outside these sources and is a
  parameter of the frame.
\<close>

record Frame =
  observer :: SkyCoord
  positions :: "UnitSphericalRepresentation list"
  to_frame :: "SkyCoord \<Rightarrow> real CartesianRepresentation"

text \<open>
  A screen holds a reference to the coordinate it was given, not a copy: coordinates live in
  a store and the screen keeps the address.
\<close>

type_synonym store = "nat \<Rightarrow> SkyCoord"

section \<open>Screens\<close>

datatype error = NotImplementedError | TypeError

record BaseScreen =
  type :: string
  only_off_disk :: bool

record SphericalScreen = BaseScreen +
  center :: nat

record PlanarScreen = BaseScreen +
  vantage_point :: nat

datatype Screen = Base BaseScreen | Spherical SphericalScreen | Planar PlanarScreen

definition BaseScreen_init :: "string \<Rightarrow> bool option \<Rightarrow> error + BaseScreen" where
  \<comment> \<open>\<open>only_off_disk\<close> is a keyword argument with default \<open>False\<close>\<close>
  "BaseScreen_init t kw =
     Inr \<lparr>type = t, only_off_disk = (case kw of None \<Rightarrow> False | Some b \<Rightarrow> b)\<rparr>"

definition BaseScreen_calculate_distance :: "BaseScreen \<Rightarrow> error + fval list" where
  "BaseScreen_calculate_distance self = Inl NotImplementedError"

definition SphericalScreen_init :: "nat \<Rightarrow> bool option \<Rightarrow> error + SphericalScreen" where
  "SphericalScreen_init center_arg kw =
     (case BaseScreen_init ''spherical'' kw of
        Inl e \<Rightarrow> Inl e
      | Inr b \<Rightarrow> Inr \<lparr>type = type b, only_off_disk = only_off_disk b, center = center_arg\<rparr>)"

definition center_hgs :: "store \<Rightarrow> SphericalScreen \<Rightarrow> SkyCoord" where
  \<comment> \<open>the centre transformed to the Stonyhurst frame of its own \<open>obstime\<close>\<close>
  "center_hgs st self = st (center self)"

definition radius :: "store \<Rightarrow> SphericalScreen \<Rightarrow> real" where
  "radius st self = hgs_radius (center_hgs st self)"

definition SphericalScreen_calculate_distance ::
  "store \<Rightarrow> SphericalScreen \<Rightarrow> Frame \<Rightarrow> fval list" where
  "SphericalScreen_calculate_distance st self frame =
     (let sphere_center = to_frame frame (st (center self));
          c = (norm_c sphere_center)\<^sup>2 - (radius st self)\<^sup>2
      in map (\<lambda>p.
           let rep = to_cartesian p;
               b = - 2 * dot sphere_center rep
           in fdiv (fadd (Fin (- 1 * b)) (fsqrt (Fin (b\<^sup>2 - 4 * c)))) (Fin 2))
         (positions frame))"

definition PlanarScreen_init :: "nat \<Rightarrow> bool option \<Rightarrow> error + PlanarScreen" where
  "PlanarScreen_init vantage_point_arg kw =
     (case BaseScreen_init ''planar'' kw of
        Inl e \<Rightarrow> Inl e
      | Inr b \<Rightarrow>
          Inr \<lparr>type = type b, only_off_disk = only_off_disk b, vantage_point = vantage_point_arg\<rparr>)"

definition PlanarScreen_calculate_distance ::
  "store \<Rightarrow> PlanarScreen \<Rightarrow> Frame \<Rightarrow> fval list" where
  "PlanarScreen_calculate_distance st self frame =
     (let direction = to_frame frame (st (vantage_point self));
          r = hgs_radius (observer frame);
          direction = \<lparr>c_x = 1 * r - c_x direction,
                       c_y = 0 * r - c_y direction,
                       c_z = 0 * r - c_z direction\<rparr>;
          n = norm_c direction;
          direction = \<lparr>c_x = fdiv (Fin (c_x direction)) (Fin n),
                       c_y = fdiv (Fin (c_y direction)) (Fin n),
                       c_z = fdiv (Fin (c_z direction)) (Fin n)\<rparr>;
          d_from_plane = fmul (Fin r) (c_x direction)
      in map (\<lambda>p.
           let rep = to_cartesian p
           in fdiv d_from_plane (fdot rep direction))
         (positions frame))"

text \<open>
  The call \<open>screen.calculate_distance(frame)\<close>, dispatched on the class of the screen. The
  method of the base class takes no frame, so Python rejects this call on a base screen
  before the body runs.
\<close>

fun calculate_distance :: "store \<Rightarrow> Screen \<Rightarrow> Frame \<Rightarrow> error + fval list" where
  "calculate_distance st (Base self) frame = Inl TypeError"
| "calculate_distance st (Spherical self) frame =
     Inr (SphericalScreen_calculate_distance st self frame)"
| "calculate_distance st (Planar self) frame =
     Inr (PlanarScreen_calculate_distance st self frame)"

section \<open>The geometry the screens are specified by\<close>

text \<open>
  The intersection of the line of sight with the sphere: the quadratic
  \<open>t\<^sup>2 - 2 (S \<cdot> D) t + (|S|\<^sup>2 - radius\<^sup>2)\<close> in the distance \<open>t\<close> from the observer, and its
  discriminant (divided by four).
\<close>

definition quadratic :: "real \<Rightarrow> real \<Rightarrow> real \<Rightarrow> real" where
  "quadratic sd c t = t\<^sup>2 - 2 * sd * t + c"

definition discriminant ::
  "real CartesianRepresentation \<Rightarrow> real CartesianRepresentation \<Rightarrow> real \<Rightarrow> real" where
  "discriminant S D rad = (dot S D)\<^sup>2 - (norm_c S)\<^sup>2 + rad\<^sup>2"

text \<open>
  The plane of a planar screen: the vector from the vantage point to the centre of the Sun
  (which lies on the x axis of the frame at the distance of the observer), and the unit
  normal obtained from it.
\<close>

definition to_body_center :: "Frame \<Rightarrow> SkyCoord \<Rightarrow> real CartesianRepresentation" where
  "to_body_center frame vp =
     (let r = hgs_radius (observer frame); v = to_frame frame vp
      in \<lparr>c_x = r - c_x v, c_y = - c_y v, c_z = - c_z v\<rparr>)"

definition plane_normal :: "Frame \<Rightarrow> SkyCoord \<Rightarrow> real CartesianRepresentation" where
  "plane_normal frame vp =
     (let w = to_body_center frame vp
      in \<lparr>c_x = c_x w / norm_c w, c_y = c_y w / norm_c w, c_z = c_z w / norm_c w\<rparr>)"

section \<open>An example frame\<close>

text \<open>
  The helioprojective frame of an observer at Stonyhurst longitude and latitude zero, at
  the distance \<open>r\<close> from the centre of the Sun. Its Cartesian x axis points from the observer
  to the Sun, so a point at the Stonyhurst position \<open>(px, py, pz)\<close> is at
  \<open>(r - px, py, pz)\<close> in the frame.
\<close>

definition example_frame :: "real \<Rightarrow> UnitSphericalRepresentation list \<Rightarrow> Frame" where
  "example_frame r pts =
     \<lparr>observer = \<lparr>obstime = 0, hgs_position = \<lparr>c_x = r, c_y = 0, c_z = 0\<rparr>\<rparr>,
      positions = pts,
      to_frame = (\<lambda>c. \<lparr>c_x = r - c_x (hgs_position c),
                        c_y = c_y (hgs_position c),
                        c_z = c_z (hgs_position c)\<rparr>)\<rparr>"

definition point_at :: "real \<Rightarrow> real \<Rightarrow> real \<Rightarrow> store" where
  \<comment> \<open>a store whose coordinates all are the point at the given Stonyhurst position\<close>
  "point_at px py pz = (\<lambda>a. \<lparr>obstime = 0, hgs_position = \<lparr>c_x = px, c_y = py, c_z = pz\<rparr>\<rparr>)"

text \<open>
  In the Stonyhurst frame the centre of the reference body (the Sun) is the origin.
\<close>

definition body_center :: "real CartesianRepresentation" where
  "body_center = \<lparr>c_x = 0, c_y = 0, c_z = 0\<rparr>"

definition distance :: "real CartesianRepresentation \<Rightarrow> real CartesianRepresentation \<Rightarrow> real" where
  "distance p q = sqrt ((c_x p - c_x q)\<^sup>2 + (c_y p - c_y q)\<^sup>2 + (c_z p - c_z q)\<^sup>2)"

section \<open>Binary64 arithmetic\<close>

text \<open>
  The definitions above compute with exact reals. Where a claim turns on an equality test of
  a computed value, the rounding of each operation decides, and the spherical screen is
  given a second time with every operation rounded to binary64: round to nearest, ties to
  even, 53 significant bits. The exponent is unbounded (no overflow, no subnormal numbers),
  and \<open>sqrt\<close>, \<open>cos\<close> and \<open>sin\<close> are taken as correctly rounded.
\<close>

definition round_even :: "real \<Rightarrow> int" where
  "round_even y =
     (let f = \<lfloor>y\<rfloor>; r = y - of_int f
      in if r < 1 / 2 then f else if 1 / 2 < r then f + 1 else if even f then f else f + 1)"

definition rnd :: "real \<Rightarrow> real" where
  "rnd x = sgn x * (let s = 2 powr of_int (\<lfloor>log 2 \<bar>x\<bar>\<rfloor> - 52)
                    in of_int (round_even (\<bar>x\<bar> / s)) * s)"

fun frnd :: "fval \<Rightarrow> fval" where
  "frnd (Fin a) = Fin (rnd a)"
| "frnd PInf = PInf"
| "frnd NInf = NInf"
| "frnd NaN = NaN"

definition to_cartesian_fp :: "UnitSphericalRepresentation \<Rightarrow> real CartesianRepresentation" where
  "to_cartesian_fp u =
     \<lparr>c_x = rnd (rnd (cos (lat u)) * rnd (cos (lon u))),
      c_y = rnd (rnd (cos (lat u)) * rnd (sin (lon u))),
      c_z = rnd (sin (lat u))\<rparr>"

definition norm_fp :: "real CartesianRepresentation \<Rightarrow> real" where
  "norm_fp v = rnd (sqrt (rnd (rnd (rnd ((c_x v)\<^sup>2) + rnd ((c_y v)\<^sup>2)) + rnd ((c_z v)\<^sup>2))))"

definition dot_fp :: "real CartesianRepresentation \<Rightarrow> real CartesianRepresentation \<Rightarrow> real" where
  "dot_fp v w = rnd (rnd (rnd (c_x v * c_x w) + rnd (c_y v * c_y w)) + rnd (c_z v * c_z w))"

definition radius_fp :: "store \<Rightarrow> SphericalScreen \<Rightarrow> real" where
  "radius_fp st self = norm_fp (hgs_position (center_hgs st self))"

definition SphericalScreen_calculate_distance_fp ::
  "store \<Rightarrow> SphericalScreen \<Rightarrow> Frame \<Rightarrow> fval list" where
  "SphericalScreen_calculate_distance_fp st self frame =
     (let sphere_center = to_frame frame (st (center self));
          c = rnd (rnd ((norm_fp sphere_center)\<^sup>2) - rnd ((radius_fp st self)\<^sup>2))
      in map (\<lambda>p.
           let rep = to_cartesian_fp p;
               b = rnd (- 2 * dot_fp sphere_center rep)
           in frnd (fdiv
                (frnd (fadd (Fin (rnd (- 1 * b)))
                            (frnd (fsqrt (Fin (rnd (rnd (b\<^sup>2) - rnd (4 * c))))))))
                (Fin 2)))
         (positions frame))"

text \<open>
  The discriminant as the method computes it: the rounded value of \<open>b**2 - 4*c\<close> under the
  square root.
\<close>

definition discriminant_fp ::
  "real CartesianRepresentation \<Rightarrow> real CartesianRepresentation \<Rightarrow> real \<Rightarrow> real" where
  "discriminant_fp S D rad =
     (let c = rnd (rnd ((norm_fp S)\<^sup>2) - rnd (rad\<^sup>2));
          b = rnd (- 2 * dot_fp S D)
      in rnd (rnd (b\<^sup>2) - rnd (4 * c)))"

section \<open>Properties\<close>

subsection \<open>Facts about the representations\<close>

lemma sq_norm_c: "(norm_c v)\<^sup>2 = (c_x v)\<^sup>2 + (c_y v)\<^sup>2 + (c_z v)\<^sup>2"
  by (simp add: norm_c_def)

lemma norm_c_nonneg: "0 \<le> norm_c v"
  by (simp add: norm_c_def)

lemma spherical_length:
  "length (SphericalScreen_calculate_distance st self frame) = length (positions frame)"
  by (simp add: SphericalScreen_calculate_distance_def Let_def)

lemma spherical_nth:
  assumes "i < length (positions frame)"
  shows "SphericalScreen_calculate_distance st self frame ! i =
    (let S = to_frame frame (st (center self)); D = to_cartesian (positions frame ! i);
         sd = dot S D; disc = discriminant S D (radius st self)
     in if disc < 0 then NaN else Fin (sd + sqrt disc))"
proof -
  define S where "S = to_frame frame (st (center self))"
  define D where "D = to_cartesian (positions frame ! i)"
  define c where "c = (norm_c S)\<^sup>2 - (radius st self)\<^sup>2"
  have e: "(- 2 * dot S D)\<^sup>2 - 4 * c = 4 * discriminant S D (radius st self)"
    by (simp add: discriminant_def c_def power2_eq_square algebra_simps)
  have s4: "sqrt (4 * d) = 2 * sqrt d" for d
    by (simp add: real_sqrt_mult)
  show ?thesis using assms
    unfolding SphericalScreen_calculate_distance_def Let_def
    apply (simp only: nth_map S_def[symmetric] D_def[symmetric] c_def[symmetric] e)
    apply (simp add: s4)
    done
qed

lemma planar_length:
  "length (PlanarScreen_calculate_distance st self frame) = length (positions frame)"
  by (simp add: PlanarScreen_calculate_distance_def Let_def)

lemma planar_nth:
  assumes "i < length (positions frame)"
  shows "PlanarScreen_calculate_distance st self frame ! i =
    (let w = to_body_center frame (st (vantage_point self));
         n = plane_normal frame (st (vantage_point self));
         d = hgs_radius (observer frame) * c_x n;
         D = to_cartesian (positions frame ! i)
     in if norm_c w = 0 then NaN
        else if dot D n = 0 then inf_signed d
        else Fin (d / dot D n))"
  using assms
  by (simp add: PlanarScreen_calculate_distance_def plane_normal_def to_body_center_def
      Let_def fdot_def dot_def inf_signed_def)

lemma unit_to_cartesian: "(norm_c (to_cartesian u))\<^sup>2 = 1"
proof -
  have "(cos (lat u) * cos (lon u))\<^sup>2 + (cos (lat u) * sin (lon u))\<^sup>2 + (sin (lat u))\<^sup>2
        = (cos (lat u))\<^sup>2 * ((cos (lon u))\<^sup>2 + (sin (lon u))\<^sup>2) + (sin (lat u))\<^sup>2"
    by (simp only: power_mult_distrib distrib_left)
  also have "\<dots> = (cos (lat u))\<^sup>2 + (sin (lat u))\<^sup>2"
    by (simp only: sin_cos_squared_add2 mult_1_right)
  also have "\<dots> = 1" by (simp only: sin_cos_squared_add2)
  finally show ?thesis by (simp add: sq_norm_c to_cartesian_def)
qed

lemma cauchy_schwarz_c: "(dot v w)\<^sup>2 \<le> (norm_c v)\<^sup>2 * (norm_c w)\<^sup>2"
proof -
  have "(norm_c v)\<^sup>2 * (norm_c w)\<^sup>2 - (dot v w)\<^sup>2
        = (c_x v * c_y w - c_y v * c_x w)\<^sup>2 + (c_x v * c_z w - c_z v * c_x w)\<^sup>2
          + (c_y v * c_z w - c_z v * c_y w)\<^sup>2"
    unfolding sq_norm_c dot_def by (simp add: power2_eq_square algebra_simps)
  moreover have "0 \<le> (c_x v * c_y w - c_y v * c_x w)\<^sup>2 + (c_x v * c_z w - c_z v * c_x w)\<^sup>2
          + (c_y v * c_z w - c_z v * c_y w)\<^sup>2"
    by simp
  ultimately show ?thesis by linarith
qed

subsection \<open>Rounding to binary64\<close>

lemma round_even_near:
  assumes "\<bar>y - of_int n\<bar> < 1 / 2"
  shows "round_even y = n"
proof -
  have b: "of_int n - 1 / 2 < y" "y < of_int n + 1 / 2"
    using assms by linarith+
  then have "\<lfloor>y\<rfloor> = n \<or> \<lfloor>y\<rfloor> = n - 1" by linarith
  then show ?thesis
  proof
    assume f: "\<lfloor>y\<rfloor> = n"
    have "y - of_int n < 1 / 2" using b by linarith
    with f show ?thesis by (simp add: round_even_def Let_def)
  next
    assume f: "\<lfloor>y\<rfloor> = n - 1"
    have "\<not> y - of_int (n - 1) < 1 / 2" "1 / 2 < y - of_int (n - 1)" using b by simp_all
    with f show ?thesis by (simp only: round_even_def Let_def if_False if_True)
  qed
qed

lemma round_even_lower: "of_int k \<le> y \<Longrightarrow> k \<le> round_even y"
proof -
  assume "of_int k \<le> y"
  then have "k \<le> \<lfloor>y\<rfloor>" by linarith
  then show ?thesis by (simp add: round_even_def Let_def)
qed

lemma round_even_upper: "y \<le> of_int k \<Longrightarrow> round_even y \<le> k"
proof -
  assume a: "y \<le> of_int k"
  show ?thesis
  proof (cases "y = of_int k")
    case True
    then show ?thesis using round_even_near[of y k] by simp
  next
    case False
    with a have "\<lfloor>y\<rfloor> < k" by linarith
    then show ?thesis by (simp add: round_even_def Let_def)
  qed
qed

lemma rnd_0: "rnd 0 = 0"
  by (simp add: rnd_def)

lemma rnd_minus: "rnd (- x) = - rnd x"
  by (simp add: rnd_def sgn_minus)

lemma rnd_pos_eqI:
  assumes "0 < x"
    and "2 powr of_int e \<le> x"
    and "x < 2 powr of_int (e + 1)"
    and "\<bar>x / 2 powr of_int (e - 52) - of_int n\<bar> < 1 / 2"
  shows "rnd x = of_int n * 2 powr of_int (e - 52)"
proof -
  have "\<lfloor>log 2 x\<rfloor> = e"
    using assms(1,2,3) by (simp add: floor_log_eq_powr_iff)
  moreover have "round_even (x / 2 powr of_int (e - 52)) = n"
    using assms(4) by (rule round_even_near)
  ultimately show ?thesis using assms(1) by (simp add: rnd_def Let_def)
qed

lemma rnd_times2: "rnd (2 * x) = 2 * rnd x"
proof (cases "x = 0")
  case True
  then show ?thesis by (simp add: rnd_0)
next
  case False
  then have "log 2 \<bar>2 * x\<bar> = 1 + log 2 \<bar>x\<bar>"
    by (simp add: abs_mult log_mult)
  then have fl: "\<lfloor>log 2 \<bar>2 * x\<bar>\<rfloor> = \<lfloor>log 2 \<bar>x\<bar>\<rfloor> + 1"
    by simp
  have pw: "(2::real) powr of_int (\<lfloor>log 2 \<bar>x\<bar>\<rfloor> + 1 - 52)
              = 2 * 2 powr of_int (\<lfloor>log 2 \<bar>x\<bar>\<rfloor> - 52)"
    by (simp add: powr_diff powr_add)
  show ?thesis
    unfolding rnd_def fl pw Let_def
    by (simp add: sgn_mult abs_mult)
qed

lemma rnd_idem_pos:
  assumes "0 < x"
  shows "rnd (rnd x) = rnd x"
proof -
  define e where "e = \<lfloor>log 2 x\<rfloor>"
  define s :: real where "s = 2 powr of_int (e - 52)"
  define n where "n = round_even (x / s)"
  have spos: "0 < s" by (simp add: s_def)
  have "2 powr of_int e \<le> x \<and> x < 2 powr of_int (e + 1)"
    using assms floor_log_eq_powr_iff[of x 2 e] by (simp add: e_def)
  moreover have pe: "(2::real) powr of_int e = 2 ^ 52 * s"
    by (simp add: s_def powr_diff)
  moreover have pe1: "(2::real) powr of_int (e + 1) = 2 ^ 53 * s"
    by (simp add: s_def powr_diff powr_add)
  ultimately have "2 ^ 52 * s \<le> x" "x < 2 ^ 53 * s" by simp_all
  then have m: "2 ^ 52 \<le> x / s" "x / s \<le> 2 ^ 53"
    using spos by (simp_all add: pos_le_divide_eq pos_divide_le_eq)
  have lo: "2 ^ 52 \<le> n"
    unfolding n_def using m(1) by (intro round_even_lower) simp
  have hi: "n \<le> 2 ^ 53"
    unfolding n_def using m(2) by (intro round_even_upper) simp
  have r: "rnd x = of_int n * s"
    using assms by (simp add: rnd_def Let_def e_def s_def n_def)
  have npos: "0 < (of_int n :: real)" using lo by simp
  show ?thesis
  proof (cases "n < 2 ^ 53")
    case True
    have "rnd (of_int n * s) = of_int n * 2 powr of_int (e - 52)"
    proof (rule rnd_pos_eqI)
      show "0 < of_int n * s" using npos spos by simp
      show "2 powr of_int e \<le> of_int n * s"
        unfolding pe using lo spos by simp
      have "(of_int n :: real) < 2 ^ 53" using True by (metis of_int_less_iff of_int_numeral of_int_power)
      then show "of_int n * s < 2 powr of_int (e + 1)"
        unfolding pe1 using spos by simp
      show "\<bar>of_int n * s / 2 powr of_int (e - 52) - of_int n\<bar> < 1 / 2"
        using spos by (simp add: s_def)
    qed
    then show ?thesis by (simp add: r s_def)
  next
    case False
    with hi have n: "n = 2 ^ 53" by simp
    have "rnd (2 ^ 53 * s) = of_int (2 ^ 52) * 2 powr of_int (e + 1 - 52)"
    proof (rule rnd_pos_eqI)
      show "0 < 2 ^ 53 * s" using spos by simp
      show "2 powr of_int (e + 1) \<le> 2 ^ 53 * s" unfolding pe1 by simp
      show "2 ^ 53 * s < 2 powr of_int (e + 1 + 1)"
        using spos by (simp add: s_def powr_diff powr_add)
      show "\<bar>2 ^ 53 * s / 2 powr of_int (e + 1 - 52) - of_int (2 ^ 52)\<bar> < 1 / 2"
        using spos by (simp add: s_def powr_diff powr_add)
    qed
    also have "\<dots> = 2 ^ 53 * s"
      by (simp add: s_def powr_diff powr_add)
    finally show ?thesis by (simp add: r n)
  qed
qed

lemma rnd_idem: "rnd (rnd x) = rnd x"
proof -
  consider "x = 0" | "0 < x" | "x < 0" by linarith
  then show ?thesis
  proof cases
    case 1
    then show ?thesis by (simp add: rnd_0)
  next
    case 2
    then show ?thesis by (rule rnd_idem_pos)
  next
    case 3
    then have "rnd (rnd (- x)) = rnd (- x)" by (intro rnd_idem_pos) simp
    then show ?thesis by (simp add: rnd_minus)
  qed
qed

lemma rnd_fix:
  assumes "0 < x"
    and "2 powr of_int e \<le> x"
    and "x < 2 powr of_int (e + 1)"
    and "x / 2 powr of_int (e - 52) = of_int n"
  shows "rnd x = x"
proof -
  have "rnd x = of_int n * 2 powr of_int (e - 52)"
    using assms(1,2,3) by (rule rnd_pos_eqI) (use assms(4) in simp)
  also have "\<dots> = x" using assms(4)[symmetric] by simp
  finally show ?thesis .
qed

lemma dot_fp_rnd: "rnd (dot_fp v w) = dot_fp v w"
  by (simp add: dot_fp_def rnd_idem)

lemma pow2_neg: "(2::real) powr - numeral k = 1 / 2 ^ numeral k"
  by (simp add: powr_minus inverse_eq_divide)

lemma rnd_1: "rnd 1 = 1"
  by (rule rnd_fix[where e = 0 and n = "2 ^ 52"]) (simp_all add: pow2_neg)

lemma rnd_2: "rnd 2 = 2"
  using rnd_times2[of 1] by (simp add: rnd_1)

lemma rnd_4: "rnd 4 = 4"
  using rnd_times2[of 2] by (simp add: rnd_2)

lemma rnd_5: "rnd 5 = 5"
  by (rule rnd_fix[where e = 2 and n = "5 * 2 ^ 50"]) (simp_all add: pow2_neg)

lemma rnd_sqrt_5: "rnd (sqrt 5) = 5035177455121576 / 2 ^ 51"
proof -
  have lo: "5035177455121575.5 / 2 ^ 51 < sqrt 5"
    by (rule real_less_rsqrt) (simp add: power_divide)
  have hi: "sqrt 5 < 5035177455121576.5 / 2 ^ 51"
    by (rule real_less_lsqrt) (simp_all add: power_divide)
  have "rnd (sqrt 5) = of_int 5035177455121576 * 2 powr of_int (1 - 52)"
  proof (rule rnd_pos_eqI)
    show "0 < sqrt (5::real)" by simp
    show "2 powr of_int 1 \<le> sqrt (5::real)"
      using real_le_rsqrt[of 2 5] by simp
    have "sqrt 5 < (4::real)" by (rule real_less_lsqrt) simp_all
    then show "sqrt (5::real) < 2 powr of_int (1 + 1)" by simp
    have a: "sqrt 5 * 2 ^ 51 - 5035177455121576 < 1 / 2"
      using hi by (simp add: field_simps)
    have b: "- (sqrt 5 * 2 ^ 51 - 5035177455121576) < 1 / 2"
      using lo by (simp add: field_simps)
    have "\<bar>sqrt 5 * 2 ^ 51 - 5035177455121576\<bar> < 1 / 2"
      using a b by (rule abs_less_iff[THEN iffD2, OF conjI])
    then show "\<bar>sqrt 5 / 2 powr of_int (1 - 52) - of_int 5035177455121576\<bar> < 1 / 2"
      by (simp add: pow2_neg)
  qed
  then show ?thesis by (simp add: pow2_neg)
qed

lemma rnd_norm_sq: "rnd ((5035177455121576 / 2 ^ 51)\<^sup>2) = 5 + 1 / 2 ^ 50"
proof -
  have "rnd ((5035177455121576 / 2 ^ 51)\<^sup>2)
        = of_int (5 * 2 ^ 50 + 1) * 2 powr of_int (2 - 52)"
    by (rule rnd_pos_eqI) (simp_all add: pow2_neg power_divide abs_less_iff)
  then show ?thesis by (simp add: pow2_neg)
qed

lemma rnd_c: "rnd (1125899906842625 / 1125899906842624) = 1125899906842625 / 1125899906842624"
  by (rule rnd_fix[where e = 0 and n = "2 ^ 52 + 4"]) (simp_all add: pow2_neg)

lemma rnd_4c: "rnd (1125899906842625 / 281474976710656) = 1125899906842625 / 281474976710656"
  by (rule rnd_fix[where e = 2 and n = "2 ^ 52 + 4"]) (simp_all add: pow2_neg)

lemma rnd_disc: "rnd (1 / 281474976710656) = 1 / 281474976710656"
  by (rule rnd_fix[where e = "- 48" and n = "2 ^ 52"]) (simp_all add: pow2_neg)

subsection \<open>The spherical screen\<close>

lemma quadratic_roots:
  assumes "0 \<le> d"
  shows "quadratic sd (sd\<^sup>2 - d) t = 0 \<longleftrightarrow> t = sd + sqrt d \<or> t = sd - sqrt d"
proof -
  have "quadratic sd (sd\<^sup>2 - d) t = (t - sd)\<^sup>2 - (sqrt d)\<^sup>2"
    using assms by (simp add: quadratic_def power2_eq_square algebra_simps)
  also have "\<dots> = (t - (sd + sqrt d)) * (t - (sd - sqrt d))"
    by (simp add: power2_eq_square algebra_simps)
  finally show ?thesis by auto
qed

text \<open>
  Claim C1. When the line of sight of a sky position crosses the sphere at two points
  (positive discriminant), \<open>SphericalScreen.calculate_distance\<close> returns for that position
  the larger of the two real roots of \<open>t\<^sup>2 - 2 (S \<cdot> D) t + (|S|\<^sup>2 - radius\<^sup>2) = 0\<close>, which is
  \<open>S \<cdot> D + sqrt ((S \<cdot> D)\<^sup>2 - |S|\<^sup>2 + radius\<^sup>2)\<close>.
\<close>

theorem spherical_far_root:
  assumes "i < length (positions frame)"
    and "S = to_frame frame (st (center self))"
    and "D = to_cartesian (positions frame ! i)"
    and "c = (norm_c S)\<^sup>2 - (radius st self)\<^sup>2"
    and "0 < discriminant S D (radius st self)"
  shows "\<exists>t. SphericalScreen_calculate_distance st self frame ! i = Fin t
           \<and> t = dot S D + sqrt ((dot S D)\<^sup>2 - (norm_c S)\<^sup>2 + (radius st self)\<^sup>2)
           \<and> quadratic (dot S D) c t = 0
           \<and> (\<exists>t'. t' < t \<and> quadratic (dot S D) c t' = 0)
           \<and> (\<forall>t'. quadratic (dot S D) c t' = 0 \<longrightarrow> t' \<le> t)"
proof -
  let ?d = "discriminant S D (radius st self)"
  let ?t = "dot S D + sqrt ?d"
  have c: "c = (dot S D)\<^sup>2 - ?d"
    using assms(4) by (simp add: discriminant_def)
  have pos: "0 < sqrt ?d" using assms(5) by simp
  have roots: "quadratic (dot S D) c t = 0 \<longleftrightarrow> t = ?t \<or> t = dot S D - sqrt ?d" for t
    unfolding c using assms(5) by (intro quadratic_roots) simp
  have val: "SphericalScreen_calculate_distance st self frame ! i = Fin ?t"
    using spherical_nth[OF assms(1), of st self] assms(2,3,5) by (simp add: Let_def)
  have form: "?t = dot S D + sqrt ((dot S D)\<^sup>2 - (norm_c S)\<^sup>2 + (radius st self)\<^sup>2)"
    by (simp add: discriminant_def)
  have r1: "quadratic (dot S D) c ?t = 0" using roots by blast
  have r2: "dot S D - sqrt ?d < ?t \<and> quadratic (dot S D) c (dot S D - sqrt ?d) = 0"
    using roots pos by auto
  have r3: "\<forall>t'. quadratic (dot S D) c t' = 0 \<longrightarrow> t' \<le> ?t"
    using roots pos by auto
  show ?thesis using val form r1 r2 r3 by blast
qed

theorem spherical_far_root_witness:
  "(0::nat) < length (positions (example_frame 1 [\<lparr>lon = 0, lat = 0\<rparr>]))
   \<and> 0 < discriminant (to_frame (example_frame 1 [\<lparr>lon = 0, lat = 0\<rparr>]) (point_at 2 0 0 0))
           (to_cartesian \<lparr>lon = 0, lat = 0\<rparr>)
           (radius (point_at 2 0 0) \<lparr>type = ''spherical'', only_off_disk = False, center = 0\<rparr>)
   \<and> SphericalScreen_calculate_distance (point_at 2 0 0)
        \<lparr>type = ''spherical'', only_off_disk = False, center = 0\<rparr>
        (example_frame 1 [\<lparr>lon = 0, lat = 0\<rparr>]) ! 0 = Fin 1"
  using spherical_far_root [of 0 "example_frame 1 [\<lparr>lon = 0, lat = 0\<rparr>]"
      "to_frame (example_frame 1 [\<lparr>lon = 0, lat = 0\<rparr>]) (point_at 2 0 0 0)"
      "point_at 2 0 0" "\<lparr>type = ''spherical'', only_off_disk = False, center = 0\<rparr>"
      "to_cartesian \<lparr>lon = 0, lat = 0\<rparr>" 
      "(norm_c (to_frame (example_frame 1 [\<lparr>lon = 0, lat = 0\<rparr>]) (point_at 2 0 0 0)))\<^sup>2
         - (radius (point_at 2 0 0) \<lparr>type = ''spherical'', only_off_disk = False, center = 0\<rparr>)\<^sup>2"]
  by (simp add: example_frame_def point_at_def discriminant_def radius_def center_hgs_def
      hgs_radius_def sq_norm_c dot_def to_cartesian_def)

text \<open>
  Claim C5, as the code has it. When the discriminant \<open>b**2 - 4*c\<close> that the method
  computes in floating point is exactly zero, \<open>SphericalScreen.calculate_distance\<close> returns
  the coincident root \<open>S \<cdot> D\<close> as it was computed, a finite value, not \<open>NaN\<close>.
\<close>

theorem spherical_computed_tangent_root:
  assumes "i < length (positions frame)"
    and "S = to_frame frame (st (center self))"
    and "D = to_cartesian_fp (positions frame ! i)"
    and "discriminant_fp S D (radius_fp st self) = 0"
  shows "SphericalScreen_calculate_distance_fp st self frame ! i = Fin (dot_fp S D)"
proof -
  have t: "rnd (2 * dot_fp S D) = 2 * dot_fp S D"
    by (simp add: rnd_times2 dot_fp_rnd)
  have b: "rnd (- (2 * dot_fp S D)) = - (2 * dot_fp S D)"
    by (simp add: rnd_minus t)
  have elt: "SphericalScreen_calculate_distance_fp st self frame ! i
        = frnd (fdiv (frnd (fadd (Fin (rnd (- 1 * rnd (- 2 * dot_fp S D))))
                                 (frnd (fsqrt (Fin (discriminant_fp S D (radius_fp st self)))))))
                     (Fin 2))"
    using assms(1)
    by (simp add: SphericalScreen_calculate_distance_fp_def discriminant_fp_def Let_def assms(2,3))
  show ?thesis
    unfolding elt assms(4) by (simp add: b t rnd_0 dot_fp_rnd)
qed

theorem spherical_computed_tangent_root_witness:
  "(0::nat) < length (positions (example_frame 1 [\<lparr>lon = 0, lat = 0\<rparr>]))
   \<and> discriminant_fp (to_frame (example_frame 1 [\<lparr>lon = 0, lat = 0\<rparr>]) (point_at 0 (3 / 4) 0 0))
        (to_cartesian_fp \<lparr>lon = 0, lat = 0\<rparr>)
        (radius_fp (point_at 0 (3 / 4) 0)
           \<lparr>type = ''spherical'', only_off_disk = False, center = 0\<rparr>) = 0
   \<and> SphericalScreen_calculate_distance_fp (point_at 0 (3 / 4) 0)
        \<lparr>type = ''spherical'', only_off_disk = False, center = 0\<rparr>
        (example_frame 1 [\<lparr>lon = 0, lat = 0\<rparr>]) ! 0 = Fin 1"
proof -
  have r916: "rnd (9 / 16) = 9 / 16"
    by (rule rnd_fix[where e = "- 1" and n = "9 * 2 ^ 49"]) (simp_all add: pow2_neg)
  have r2516: "rnd (25 / 16) = 25 / 16"
    by (rule rnd_fix[where e = 0 and n = "25 * 2 ^ 48"]) (simp_all add: pow2_neg)
  have r54: "rnd (5 / 4) = 5 / 4"
    by (rule rnd_fix[where e = 0 and n = "5 * 2 ^ 50"]) (simp_all add: pow2_neg)
  have r34: "rnd (3 / 4) = 3 / 4"
    by (rule rnd_fix[where e = "- 1" and n = "3 * 2 ^ 51"]) (simp_all add: pow2_neg)
  have s1: "sqrt (25 / 16) = 5 / 4"
    by (rule real_sqrt_unique) (simp_all add: power_divide)
  have s2: "sqrt (9 / 16) = 3 / 4"
    by (rule real_sqrt_unique) (simp_all add: power_divide)
  have n: "norm_fp \<lparr>c_x = 1, c_y = 3 / 4, c_z = 0\<rparr> = 5 / 4"
    by (simp add: norm_fp_def power_divide rnd_0 rnd_1 r916 r2516 s1 r54)
  have r: "norm_fp \<lparr>c_x = 0, c_y = 3 / 4, c_z = 0\<rparr> = 3 / 4"
    by (simp add: norm_fp_def power_divide rnd_0 r916 s2 r34)
  have d: "dot_fp \<lparr>c_x = 1, c_y = 3 / 4, c_z = 0\<rparr> (to_cartesian_fp \<lparr>lon = 0, lat = 0\<rparr>) = 1"
    by (simp add: dot_fp_def to_cartesian_fp_def rnd_0 rnd_1)
  have S: "to_frame (example_frame 1 [\<lparr>lon = 0, lat = 0\<rparr>]) (point_at 0 (3 / 4) 0 0)
           = \<lparr>c_x = 1, c_y = 3 / 4, c_z = 0\<rparr>"
    by (simp add: example_frame_def point_at_def)
  have rad: "radius_fp (point_at 0 (3 / 4) 0)
           \<lparr>type = ''spherical'', only_off_disk = False, center = 0\<rparr> = 3 / 4"
    by (simp add: radius_fp_def center_hgs_def point_at_def r)
  have disc: "discriminant_fp \<lparr>c_x = 1, c_y = 3 / 4, c_z = 0\<rparr>
        (to_cartesian_fp \<lparr>lon = 0, lat = 0\<rparr>) (3 / 4) = 0"
    unfolding discriminant_fp_def Let_def n d
    by (simp add: power_divide r2516 r916 rnd_1 rnd_2 rnd_4 rnd_minus rnd_0)
  have len: "(0::nat) < length (positions (example_frame 1 [\<lparr>lon = 0, lat = 0\<rparr>]))"
    by (simp add: example_frame_def)
  have pos: "positions (example_frame 1 [\<lparr>lon = 0, lat = 0\<rparr>]) ! 0 = \<lparr>lon = 0, lat = 0\<rparr>"
    by (simp add: example_frame_def)
  have disc': "discriminant_fp
        (to_frame (example_frame 1 [\<lparr>lon = 0, lat = 0\<rparr>]) (point_at 0 (3 / 4) 0 0))
        (to_cartesian_fp \<lparr>lon = 0, lat = 0\<rparr>)
        (radius_fp (point_at 0 (3 / 4) 0)
           \<lparr>type = ''spherical'', only_off_disk = False, center = 0\<rparr>) = 0"
    by (simp only: S rad disc)
  have "SphericalScreen_calculate_distance_fp (point_at 0 (3 / 4) 0)
        \<lparr>type = ''spherical'', only_off_disk = False, center = 0\<rparr>
        (example_frame 1 [\<lparr>lon = 0, lat = 0\<rparr>]) ! 0
        = Fin (dot_fp (to_frame (example_frame 1 [\<lparr>lon = 0, lat = 0\<rparr>]) (point_at 0 (3 / 4) 0 0))
                 (to_cartesian_fp \<lparr>lon = 0, lat = 0\<rparr>))"
  proof (rule spherical_computed_tangent_root)
    show "0 < length (positions (example_frame 1 [\<lparr>lon = 0, lat = 0\<rparr>]))"
      by (rule len)
    show "to_frame (example_frame 1 [\<lparr>lon = 0, lat = 0\<rparr>]) (point_at 0 (3 / 4) 0 0)
          = to_frame (example_frame 1 [\<lparr>lon = 0, lat = 0\<rparr>])
              (point_at 0 (3 / 4) 0
                 (center \<lparr>type = ''spherical'', only_off_disk = False, center = 0\<rparr>))"
      by simp
    show "to_cartesian_fp \<lparr>lon = 0, lat = 0\<rparr>
          = to_cartesian_fp (positions (example_frame 1 [\<lparr>lon = 0, lat = 0\<rparr>]) ! 0)"
      by (simp only: pos)
    show "discriminant_fp
        (to_frame (example_frame 1 [\<lparr>lon = 0, lat = 0\<rparr>]) (point_at 0 (3 / 4) 0 0))
        (to_cartesian_fp \<lparr>lon = 0, lat = 0\<rparr>)
        (radius_fp (point_at 0 (3 / 4) 0)
           \<lparr>type = ''spherical'', only_off_disk = False, center = 0\<rparr>) = 0"
      by (rule disc')
  qed
  then have val: "SphericalScreen_calculate_distance_fp (point_at 0 (3 / 4) 0)
        \<lparr>type = ''spherical'', only_off_disk = False, center = 0\<rparr>
        (example_frame 1 [\<lparr>lon = 0, lat = 0\<rparr>]) ! 0 = Fin 1"
    by (simp only: S d)
  show ?thesis by (intro conjI len disc' val)
qed

text \<open>
  Claim C5 as stated fails: a ray that is exactly tangent in real arithmetic can compute a
  negative discriminant. For the sphere with centre \<open>(1, 2, 0)\<close> in the frame and radius 2,
  seen along \<open>(1, 0, 0)\<close>, the exact discriminant is zero, but \<open>norm()**2\<close> is the rounded
  square of the rounded \<open>sqrt 5\<close>, which is \<open>5 + 2 ^ - 50\<close>; the computed discriminant is
  \<open>- 2 ^ - 48\<close> and the method returns \<open>NaN\<close>.
\<close>

theorem exactly_tangent_counterexample:
  "discriminant (to_frame (example_frame 1 [\<lparr>lon = 0, lat = 0\<rparr>]) (point_at 0 2 0 0))
       (to_cartesian \<lparr>lon = 0, lat = 0\<rparr>)
       (radius (point_at 0 2 0) \<lparr>type = ''spherical'', only_off_disk = False, center = 0\<rparr>) = 0
   \<and> SphericalScreen_calculate_distance_fp (point_at 0 2 0)
        \<lparr>type = ''spherical'', only_off_disk = False, center = 0\<rparr>
        (example_frame 1 [\<lparr>lon = 0, lat = 0\<rparr>]) = [NaN]"
proof -
  have ex: "discriminant (to_frame (example_frame 1 [\<lparr>lon = 0, lat = 0\<rparr>]) (point_at 0 2 0 0))
       (to_cartesian \<lparr>lon = 0, lat = 0\<rparr>)
       (radius (point_at 0 2 0) \<lparr>type = ''spherical'', only_off_disk = False, center = 0\<rparr>) = 0"
    by (simp add: example_frame_def point_at_def discriminant_def radius_def center_hgs_def
        hgs_radius_def sq_norm_c dot_def to_cartesian_def)
  have n: "norm_fp \<lparr>c_x = 1, c_y = 2, c_z = 0\<rparr> = 5035177455121576 / 2 ^ 51"
    by (simp add: norm_fp_def rnd_0 rnd_1 rnd_4 rnd_5 rnd_sqrt_5)
  have r: "norm_fp \<lparr>c_x = 0, c_y = 2, c_z = 0\<rparr> = 2"
    by (simp add: norm_fp_def rnd_0 rnd_4 rnd_2)
  have d: "dot_fp \<lparr>c_x = 1, c_y = 2, c_z = 0\<rparr> (to_cartesian_fp \<lparr>lon = 0, lat = 0\<rparr>) = 1"
    by (simp add: dot_fp_def to_cartesian_fp_def rnd_0 rnd_1)
  have c: "rnd (rnd ((5035177455121576 / 2 ^ 51)\<^sup>2) - rnd (2\<^sup>2))
           = 1125899906842625 / 1125899906842624"
    by (simp only: rnd_norm_sq) (simp add: rnd_4 rnd_c)
  have fp: "SphericalScreen_calculate_distance_fp (point_at 0 2 0)
        \<lparr>type = ''spherical'', only_off_disk = False, center = 0\<rparr>
        (example_frame 1 [\<lparr>lon = 0, lat = 0\<rparr>]) = [NaN]"
    unfolding SphericalScreen_calculate_distance_fp_def Let_def radius_fp_def center_hgs_def
    apply (simp only: example_frame_def point_at_def Frame.simps SkyCoord.simps
        SphericalScreen.simps CartesianRepresentation.simps list.map diff_zero n r d c)
    apply (simp add: rnd_2 rnd_minus rnd_4 rnd_4c rnd_disc)
    done
  show ?thesis using ex fp by simp
qed

text \<open>
  Claim C6. A spherical screen whose centre is the observer of the queried frame (so that
  the centre is the origin of the frame) gives every sky position the same distance: the
  distance of the observer from the centre of the reference body.
\<close>

theorem sphere_at_observer_constant:
  assumes "st (center self) = observer frame"
    and "to_frame frame (observer frame) = \<lparr>c_x = 0, c_y = 0, c_z = 0\<rparr>"
  shows "SphericalScreen_calculate_distance st self frame =
           map (\<lambda>p. Fin (hgs_radius (observer frame))) (positions frame)"
proof -
  have r: "0 \<le> hgs_radius (observer frame)" by (simp add: hgs_radius_def norm_c_nonneg)
  have "sqrt (4 * (hgs_radius (observer frame))\<^sup>2) = 2 * hgs_radius (observer frame)"
    using r by (simp add: real_sqrt_mult)
  then show ?thesis
    using assms r
    by (simp add: SphericalScreen_calculate_distance_def Let_def radius_def center_hgs_def
        dot_def norm_c_def)
qed

theorem sphere_at_observer_constant_witness:
  "point_at 1 0 0 (center \<lparr>type = ''spherical'', only_off_disk = False, center = 0\<rparr>)
     = observer (example_frame 1 [\<lparr>lon = 0, lat = 0\<rparr>, \<lparr>lon = pi / 2, lat = 0\<rparr>, \<lparr>lon = 0, lat = pi / 2\<rparr>])
   \<and> to_frame (example_frame 1 [\<lparr>lon = 0, lat = 0\<rparr>, \<lparr>lon = pi / 2, lat = 0\<rparr>, \<lparr>lon = 0, lat = pi / 2\<rparr>])
        (observer (example_frame 1 [\<lparr>lon = 0, lat = 0\<rparr>, \<lparr>lon = pi / 2, lat = 0\<rparr>, \<lparr>lon = 0, lat = pi / 2\<rparr>]))
     = \<lparr>c_x = 0, c_y = 0, c_z = 0\<rparr>
   \<and> SphericalScreen_calculate_distance (point_at 1 0 0)
        \<lparr>type = ''spherical'', only_off_disk = False, center = 0\<rparr>
        (example_frame 1 [\<lparr>lon = 0, lat = 0\<rparr>, \<lparr>lon = pi / 2, lat = 0\<rparr>, \<lparr>lon = 0, lat = pi / 2\<rparr>])
     = [Fin 1, Fin 1, Fin 1]"
  using sphere_at_observer_constant [of "point_at 1 0 0"
      "\<lparr>type = ''spherical'', only_off_disk = False, center = 0\<rparr>"
      "example_frame 1 [\<lparr>lon = 0, lat = 0\<rparr>, \<lparr>lon = pi / 2, lat = 0\<rparr>, \<lparr>lon = 0, lat = pi / 2\<rparr>]"]
  by (simp add: example_frame_def point_at_def hgs_radius_def norm_c_def)

text \<open>
  Claim C10. There is a spherical screen and a sky position for which
  \<open>SphericalScreen.calculate_distance\<close> returns a finite negative distance: both roots of
  the quadratic are negative (the sphere lies behind the observer on that line of sight)
  and the larger one is returned as it is, neither clamped nor replaced by \<open>NaN\<close>. Here the
  sphere has its centre at twice the distance of the Sun, on the line from the observer
  through the Sun, and the observer looks away from the Sun; the roots are \<open>-1\<close> and \<open>-3\<close>.
\<close>

theorem spherical_negative_distance:
  "SphericalScreen_calculate_distance (point_at (- 1) 0 0)
       \<lparr>type = ''spherical'', only_off_disk = False, center = 0\<rparr>
       (example_frame 1 [\<lparr>lon = pi, lat = 0\<rparr>]) = [Fin (- 1)]
   \<and> dot (to_frame (example_frame 1 [\<lparr>lon = pi, lat = 0\<rparr>]) (point_at (- 1) 0 0 0))
         (to_cartesian \<lparr>lon = pi, lat = 0\<rparr>) = - 2
   \<and> (norm_c (to_frame (example_frame 1 [\<lparr>lon = pi, lat = 0\<rparr>]) (point_at (- 1) 0 0 0)))\<^sup>2
       - (radius (point_at (- 1) 0 0) \<lparr>type = ''spherical'', only_off_disk = False, center = 0\<rparr>)\<^sup>2
       = 3
   \<and> quadratic (- 2) 3 (- 1) = 0 \<and> quadratic (- 2) 3 (- 3) = 0"
  by (simp add: SphericalScreen_calculate_distance_def example_frame_def point_at_def
      radius_def center_hgs_def hgs_radius_def sq_norm_c dot_def to_cartesian_def
      quadratic_def Let_def)

subsection \<open>The planar screen\<close>

text \<open>
  Claim C3. For every planar screen and every sky position, \<open>PlanarScreen.calculate_distance\<close>
  returns \<open>t = d / (D \<cdot> n)\<close>, where \<open>n\<close> is the normalised vector
  \<open>observer.radius * xAxis - vantage point\<close>, \<open>d = observer.radius * n.x\<close> and \<open>D\<close> is the
  direction of the line of sight. Where the quotient is not a number (the vector to
  normalise is zero, or \<open>D \<cdot> n = 0\<close>) the value is the one IEEE division gives.
\<close>

theorem planar_distance_formula:
  assumes "i < length (positions frame)"
    and "n = plane_normal frame (st (vantage_point self))"
    and "d = hgs_radius (observer frame) * c_x n"
    and "D = to_cartesian (positions frame ! i)"
  shows "PlanarScreen_calculate_distance st self frame ! i =
           (if norm_c (to_body_center frame (st (vantage_point self))) = 0 then NaN
            else if dot D n = 0 then inf_signed d
            else Fin (d / dot D n))"
  using planar_nth[OF assms(1), of st self] assms(2,3,4) by (simp add: Let_def)

theorem planar_distance_formula_witness:
  "(0::nat) < length (positions (example_frame 1 [\<lparr>lon = pi / 2, lat = 0\<rparr>]))
   \<and> plane_normal (example_frame 1 [\<lparr>lon = pi / 2, lat = 0\<rparr>]) (point_at 3 (- 4) 0 0)
       = \<lparr>c_x = 3 / 5, c_y = 4 / 5, c_z = 0\<rparr>
   \<and> PlanarScreen_calculate_distance (point_at 3 (- 4) 0)
        \<lparr>type = ''planar'', only_off_disk = False, vantage_point = 0\<rparr>
        (example_frame 1 [\<lparr>lon = pi / 2, lat = 0\<rparr>]) ! 0 = Fin (3 / 4)"
proof -
  have "sqrt 25 = (5::real)" using real_sqrt_abs[of 5] by simp
  then show ?thesis
    using planar_distance_formula [of 0 "example_frame 1 [\<lparr>lon = pi / 2, lat = 0\<rparr>]"
      "plane_normal (example_frame 1 [\<lparr>lon = pi / 2, lat = 0\<rparr>]) (point_at 3 (- 4) 0 0)"
      "point_at 3 (- 4) 0" "\<lparr>type = ''planar'', only_off_disk = False, vantage_point = 0\<rparr>"
      "hgs_radius (observer (example_frame 1 [\<lparr>lon = pi / 2, lat = 0\<rparr>]))
         * c_x (plane_normal (example_frame 1 [\<lparr>lon = pi / 2, lat = 0\<rparr>]) (point_at 3 (- 4) 0 0))"
      "to_cartesian \<lparr>lon = pi / 2, lat = 0\<rparr>"]
    by (simp add: example_frame_def point_at_def plane_normal_def to_body_center_def
        hgs_radius_def norm_c_def dot_def to_cartesian_def Let_def)
qed

subsection \<open>Degenerate geometry\<close>

lemma inf_signed_not_finite: "\<not> is_finite (inf_signed a)"
  by (simp add: inf_signed_def)

text \<open>
  Claim C2. Neither screen raises for a degenerate sky position: \<open>calculate_distance\<close>
  returns a sequence with one element for each position; for a spherical screen the element
  of a position whose line of sight misses the sphere (negative discriminant) is \<open>NaN\<close>, and
  for a planar screen the element of a position whose ray is parallel to the plane
  (\<open>D \<cdot> n = 0\<close>) is not finite: an infinity of the sign of \<open>d\<close>, or \<open>NaN\<close> when \<open>d = 0\<close>.
\<close>

theorem degenerate_points_not_raised:
  assumes "i < length (positions frame)"
    and "D = to_cartesian (positions frame ! i)"
    and "n = plane_normal frame (st (vantage_point p))"
  shows "(\<exists>ds. calculate_distance st (Spherical s) frame = Inr ds
            \<and> length ds = length (positions frame)
            \<and> (discriminant (to_frame frame (st (center s))) D (radius st s) < 0
                 \<longrightarrow> ds ! i = NaN))
       \<and> (\<exists>ds. calculate_distance st (Planar p) frame = Inr ds
            \<and> length ds = length (positions frame)
            \<and> (norm_c (to_body_center frame (st (vantage_point p))) \<noteq> 0 \<and> dot D n = 0
                 \<longrightarrow> ds ! i = inf_signed (hgs_radius (observer frame) * c_x n)
                     \<and> \<not> is_finite (ds ! i)))"
proof -
  have sph: "discriminant (to_frame frame (st (center s))) D (radius st s) < 0
             \<longrightarrow> SphericalScreen_calculate_distance st s frame ! i = NaN"
    using spherical_nth[OF assms(1), of st s] assms(2) by (simp add: Let_def)
  have pla: "norm_c (to_body_center frame (st (vantage_point p))) \<noteq> 0 \<and> dot D n = 0
             \<longrightarrow> PlanarScreen_calculate_distance st p frame ! i
                   = inf_signed (hgs_radius (observer frame) * c_x n)"
    using planar_nth[OF assms(1), of st p] assms(2,3) by (simp add: Let_def)
  show ?thesis
    using sph pla by (simp add: spherical_length planar_length inf_signed_not_finite)
qed

theorem degenerate_points_not_raised_witness:
  "(0::nat) < length (positions (example_frame 1 [\<lparr>lon = 0, lat = pi / 2\<rparr>]))
   \<and> discriminant (to_frame (example_frame 1 [\<lparr>lon = 0, lat = pi / 2\<rparr>]) (point_at (- 1) 0 0 0))
        (to_cartesian \<lparr>lon = 0, lat = pi / 2\<rparr>)
        (radius (point_at (- 1) 0 0) \<lparr>type = ''spherical'', only_off_disk = False, center = 0\<rparr>) < 0
   \<and> norm_c (to_body_center (example_frame 1 [\<lparr>lon = 0, lat = pi / 2\<rparr>]) (point_at (- 1) 0 0 0)) \<noteq> 0
   \<and> dot (to_cartesian \<lparr>lon = 0, lat = pi / 2\<rparr>)
        (plane_normal (example_frame 1 [\<lparr>lon = 0, lat = pi / 2\<rparr>]) (point_at (- 1) 0 0 0)) = 0
   \<and> calculate_distance (point_at (- 1) 0 0)
        (Spherical \<lparr>type = ''spherical'', only_off_disk = False, center = 0\<rparr>)
        (example_frame 1 [\<lparr>lon = 0, lat = pi / 2\<rparr>]) = Inr [NaN]
   \<and> calculate_distance (point_at (- 1) 0 0)
        (Planar \<lparr>type = ''planar'', only_off_disk = False, vantage_point = 0\<rparr>)
        (example_frame 1 [\<lparr>lon = 0, lat = pi / 2\<rparr>]) = Inr [NInf]"
  using degenerate_points_not_raised [of 0 "example_frame 1 [\<lparr>lon = 0, lat = pi / 2\<rparr>]"
      "to_cartesian \<lparr>lon = 0, lat = pi / 2\<rparr>"
      "plane_normal (example_frame 1 [\<lparr>lon = 0, lat = pi / 2\<rparr>]) (point_at (- 1) 0 0 0)"
      "point_at (- 1) 0 0" "\<lparr>type = ''planar'', only_off_disk = False, vantage_point = 0\<rparr>"
      "\<lparr>type = ''spherical'', only_off_disk = False, center = 0\<rparr>"]
  by (auto simp add: example_frame_def point_at_def plane_normal_def to_body_center_def
      discriminant_def radius_def center_hgs_def hgs_radius_def norm_c_def dot_def
      to_cartesian_def inf_signed_def Let_def length_Suc_conv)

subsection \<open>Construction\<close>

text \<open>
  Claim C4, as the code has it. The constructors of the planar and of the spherical screen
  check nothing and never raise, and neither does the first use. With the vantage point at
  the centre of the reference body, \<open>PlanarScreen.calculate_distance\<close> returns \<open>NaN\<close> for every
  sky position. With the centre of a spherical screen at the centre of the reference body
  (radius 0), \<open>SphericalScreen.calculate_distance\<close> returns for each sky position \<open>NaN\<close>, or
  the finite value \<open>S \<cdot> D\<close> when the line of sight passes through that centre.
\<close>

theorem degenerate_screens_not_rejected:
  assumes "to_frame frame (st (vantage_point p))
             = \<lparr>c_x = hgs_radius (observer frame), c_y = 0, c_z = 0\<rparr>"
    and "radius st s = 0"
  shows "PlanarScreen_init a kw
           = Inr \<lparr>type = ''planar'', only_off_disk = (case kw of None \<Rightarrow> False | Some b \<Rightarrow> b),
                  vantage_point = a\<rparr>
       \<and> SphericalScreen_init a kw
           = Inr \<lparr>type = ''spherical'', only_off_disk = (case kw of None \<Rightarrow> False | Some b \<Rightarrow> b),
                  center = a\<rparr>
       \<and> calculate_distance st (Planar p) frame = Inr (map (\<lambda>q. NaN) (positions frame))
       \<and> calculate_distance st (Spherical s) frame
           = Inr (map (\<lambda>q. if (dot (to_frame frame (st (center s))) (to_cartesian q))\<^sup>2
                                 < (norm_c (to_frame frame (st (center s))))\<^sup>2
                            then NaN
                            else Fin (dot (to_frame frame (st (center s))) (to_cartesian q)))
                  (positions frame))"
proof -
  have pla: "PlanarScreen_calculate_distance st p frame = map (\<lambda>q. NaN) (positions frame)"
    using assms(1)
    by (simp add: PlanarScreen_calculate_distance_def Let_def norm_c_def inf_signed_def)
  have le: "(dot S (to_cartesian q))\<^sup>2 \<le> (norm_c S)\<^sup>2" for S q
    using cauchy_schwarz_c[of S "to_cartesian q"] by (simp add: unit_to_cartesian)
  have elt: "fdiv (fadd (Fin (- 1 * (- 2 * dot S D)))
                (fsqrt (Fin ((- 2 * dot S D)\<^sup>2 - 4 * ((norm_c S)\<^sup>2 - 0\<^sup>2))))) (Fin 2)
             = (if (dot S D)\<^sup>2 < (norm_c S)\<^sup>2 then NaN else Fin (dot S D))"
    if "(dot S D)\<^sup>2 \<le> (norm_c S)\<^sup>2" for S D
  proof (cases "(dot S D)\<^sup>2 < (norm_c S)\<^sup>2")
    case True
    then have "(- 2 * dot S D)\<^sup>2 - 4 * ((norm_c S)\<^sup>2 - 0\<^sup>2) < 0"
      by (simp add: power_mult_distrib)
    with True show ?thesis by simp
  next
    case False
    with that have "(dot S D)\<^sup>2 = (norm_c S)\<^sup>2" by simp
    then have "(- 2 * dot S D)\<^sup>2 - 4 * ((norm_c S)\<^sup>2 - 0\<^sup>2) = 0"
      by (simp add: power_mult_distrib)
    with False show ?thesis by simp
  qed
  have sph: "SphericalScreen_calculate_distance st s frame
           = map (\<lambda>q. if (dot (to_frame frame (st (center s))) (to_cartesian q))\<^sup>2
                                 < (norm_c (to_frame frame (st (center s))))\<^sup>2
                            then NaN
                            else Fin (dot (to_frame frame (st (center s))) (to_cartesian q)))
                  (positions frame)"
    unfolding SphericalScreen_calculate_distance_def Let_def assms(2)
    by (rule map_cong[OF refl]) (rule elt[OF le])
  show ?thesis
    using pla sph by (simp add: PlanarScreen_init_def SphericalScreen_init_def BaseScreen_init_def)
qed

theorem degenerate_screens_not_rejected_witness:
  "to_frame (example_frame 1 [\<lparr>lon = 0, lat = 0\<rparr>, \<lparr>lon = pi / 2, lat = 0\<rparr>]) (point_at 0 0 0 0)
     = \<lparr>c_x = hgs_radius (observer (example_frame 1 [\<lparr>lon = 0, lat = 0\<rparr>, \<lparr>lon = pi / 2, lat = 0\<rparr>])),
        c_y = 0, c_z = 0\<rparr>
   \<and> radius (point_at 0 0 0) \<lparr>type = ''spherical'', only_off_disk = False, center = 0\<rparr> = 0
   \<and> PlanarScreen_init 0 None = Inr \<lparr>type = ''planar'', only_off_disk = False, vantage_point = 0\<rparr>
   \<and> SphericalScreen_init 0 None = Inr \<lparr>type = ''spherical'', only_off_disk = False, center = 0\<rparr>
   \<and> calculate_distance (point_at 0 0 0)
        (Planar \<lparr>type = ''planar'', only_off_disk = False, vantage_point = 0\<rparr>)
        (example_frame 1 [\<lparr>lon = 0, lat = 0\<rparr>, \<lparr>lon = pi / 2, lat = 0\<rparr>]) = Inr [NaN, NaN]
   \<and> calculate_distance (point_at 0 0 0)
        (Spherical \<lparr>type = ''spherical'', only_off_disk = False, center = 0\<rparr>)
        (example_frame 1 [\<lparr>lon = 0, lat = 0\<rparr>, \<lparr>lon = pi / 2, lat = 0\<rparr>]) = Inr [Fin 1, NaN]"
  using degenerate_screens_not_rejected [of "example_frame 1 [\<lparr>lon = 0, lat = 0\<rparr>, \<lparr>lon = pi / 2, lat = 0\<rparr>]"
      "point_at 0 0 0" "\<lparr>type = ''planar'', only_off_disk = False, vantage_point = 0\<rparr>"
      "\<lparr>type = ''spherical'', only_off_disk = False, center = 0\<rparr>" 0 None]
  by (simp add: example_frame_def point_at_def radius_def center_hgs_def hgs_radius_def
      norm_c_def dot_def to_cartesian_def)

text \<open>
  Claim C4 as stated fails: a planar screen with its vantage point at the centre of the
  Sun, and a spherical screen with its centre there, are constructed without an error, and
  their first use returns numeric values.
\<close>

theorem invalid_configuration_counterexample:
  "PlanarScreen_init 0 None = Inr \<lparr>type = ''planar'', only_off_disk = False, vantage_point = 0\<rparr>
   \<and> calculate_distance (point_at 0 0 0)
        (Planar \<lparr>type = ''planar'', only_off_disk = False, vantage_point = 0\<rparr>)
        (example_frame 1 [\<lparr>lon = 0, lat = 0\<rparr>]) = Inr [NaN]
   \<and> SphericalScreen_init 0 None = Inr \<lparr>type = ''spherical'', only_off_disk = False, center = 0\<rparr>
   \<and> radius (point_at 0 0 0) \<lparr>type = ''spherical'', only_off_disk = False, center = 0\<rparr> = 0
   \<and> calculate_distance (point_at 0 0 0)
        (Spherical \<lparr>type = ''spherical'', only_off_disk = False, center = 0\<rparr>)
        (example_frame 1 [\<lparr>lon = 0, lat = 0\<rparr>]) = Inr [Fin 1]"
  by (simp add: PlanarScreen_init_def SphericalScreen_init_def BaseScreen_init_def
      PlanarScreen_calculate_distance_def SphericalScreen_calculate_distance_def
      example_frame_def point_at_def radius_def center_hgs_def hgs_radius_def
      norm_c_def dot_def fdot_def to_cartesian_def inf_signed_def Let_def)

text \<open>
  Claim C9, as the code has it. Constructing the base screen directly succeeds and gives an
  object holding \<open>type\<close> and \<open>only_off_disk\<close>. The base class has no distance calculation of
  its own: its \<open>calculate_distance\<close> raises \<open>NotImplementedError\<close>, and the call with a frame
  that the variants accept fails on a base screen.
\<close>

theorem base_screen_constructs_but_cannot_calculate:
  "BaseScreen_init t kw
     = Inr \<lparr>type = t, only_off_disk = (case kw of None \<Rightarrow> False | Some b \<Rightarrow> b)\<rparr>
   \<and> BaseScreen_calculate_distance self = Inl NotImplementedError
   \<and> (\<exists>e. calculate_distance st (Base self) frame = Inl e)"
  by (simp add: BaseScreen_init_def BaseScreen_calculate_distance_def)

text \<open>
  Claim C9 as stated fails: instantiating the base screen is not an error.
\<close>

theorem base_screen_instantiation_counterexample:
  "BaseScreen_init ''spherical'' None = Inr \<lparr>type = ''spherical'', only_off_disk = False\<rparr>"
  by (simp add: BaseScreen_init_def)

subsection \<open>The radius of the spherical screen\<close>

text \<open>
  Claim C8. The \<open>radius\<close> of a spherical screen is computed from \<open>center\<close> at each access: it
  is the distance of the coordinate the screen refers to from the centre of the reference
  body, in the Stonyhurst frame of that coordinate's own observation time. Nothing is kept
  from construction: after the coordinate changes, also for a screen constructed before
  the change, \<open>radius\<close> is the distance of the new coordinate.
\<close>

theorem radius_follows_center:
  "radius st self = distance (hgs_position (st (center self))) body_center
   \<and> radius (st(center self := c')) self = distance (hgs_position c') body_center
   \<and> (\<exists>s. SphericalScreen_init a kw = Inr s
          \<and> radius st s = distance (hgs_position (st a)) body_center
          \<and> radius (st(a := c')) s = distance (hgs_position c') body_center)"
  by (simp add: radius_def center_hgs_def hgs_radius_def norm_c_def distance_def
      body_center_def SphericalScreen_init_def BaseScreen_init_def)

end
